theory Spec2Isabelle
  imports Complex_Main "HOL-Library.Sublist" "HOL-Library.Log_Nat"
begin

section \<open>The health endpoint of the prediction service (src/ml-service/main.py)\<close>

text \<open>
  The development embeds \<^verbatim>\<open>health_check\<close> (main.py, lines 39-116). Everything the
  function reads from its surroundings is an explicit input: the module-level
  \<^verbatim>\<open>start_time\<close>, the clock, the three psutil samples (each of which may raise), the two
  places where the UTC timestamp is taken, and the environment variable
  \<^verbatim>\<open>NODE_ENV\<close>.

  A Python float is an IEEE 754 double. The model keeps the value of a float as a real
  number and rounds the exact result of every float operation to the nearest double,
  ties to the even significand (\<open>fl\<close> below). Two things are left out: the sign of zero,
  and overflow (a result of magnitude \<open>2 ^ 1024\<close> or more), which no difference of clock
  readings and no byte count of a machine reaches.
\<close>

subsection \<open>Python values\<close>

text \<open>
  The dictionaries the endpoint builds hold strings, floats, lists and nested
  dictionaries. A dictionary keeps its insertion order, so it is an association list.
\<close>

datatype json =
    JStr string
  | JNum real
  | JList "json list"
  | JDict "(string \<times> json) list"

type_synonym dict = "(string \<times> json) list"

text \<open>\<^verbatim>\<open>d[k] = v\<close>: an existing key keeps its place, a new key goes last.\<close>

fun dict_set :: "dict \<Rightarrow> string \<Rightarrow> json \<Rightarrow> dict" where
  "dict_set [] k v = [(k, v)]"
| "dict_set ((k', v') # d) k v =
     (if k' = k then (k, v) # d else (k', v') # dict_set d k v)"

text \<open>Looking a key up; \<open>None\<close> is an absent key.\<close>

definition dict_get :: "dict \<Rightarrow> string \<Rightarrow> json option" where
  "dict_get d k = map_of d k"

text \<open>A key of a dictionary nested in a value; \<open>None\<close> when the value is no dictionary.\<close>

definition json_field :: "json \<Rightarrow> string \<Rightarrow> json option" where
  "json_field j k = (case j of JDict d \<Rightarrow> dict_get d k | _ \<Rightarrow> None)"

text \<open>
  Exceptions. \<open>Fault s\<close> is any exception raised by a psutil call, \<open>s\<close> being its
  \<^verbatim>\<open>str(e)\<close>. \<open>HTTPException code detail\<close> is FastAPI's exception class, a subclass of
  \<^verbatim>\<open>Exception\<close>.
\<close>

datatype exn =
    Fault string
  | HTTPException int json

text \<open>
  \<^verbatim>\<open>str(e)\<close>. What FastAPI's \<^verbatim>\<open>HTTPException\<close> prints is decided by the framework,
  so it is the parameter \<open>http_str\<close>.
\<close>

fun str_exn :: "(int \<Rightarrow> json \<Rightarrow> string) \<Rightarrow> exn \<Rightarrow> string" where
  "str_exn http_str (Fault s) = s"
| "str_exn http_str (HTTPException code detail) = http_str code detail"

text \<open>The integer nearest to a real number, ties going to the even integer.\<close>

definition round_half_even :: "real \<Rightarrow> int" where
  "round_half_even x =
     (let f = \<lfloor>x\<rfloor>; d = x - of_int f
      in if d < 1 / 2 then f
         else if 1 / 2 < d then f + 1
         else if even f then f else f + 1)"

text \<open>
  Doubles. \<open>binade x\<close> is the exponent \<open>e\<close> with \<open>2 ^ e \<le> \<bar>x\<bar> < 2 ^ (e + 1)\<close>, and
  \<open>- 1022\<close> for the subnormal numbers and zero (\<open>bitlen n\<close> is the number of binary
  digits of \<open>n\<close>). The doubles of that binade are the multiples of \<open>ulp x\<close>, 52 binary
  places further down; \<open>fl x\<close> is the nearest of them, ties to the even multiple.
\<close>

definition binade :: "real \<Rightarrow> int" where
  "binade x = max (bitlen \<lfloor>\<bar>x\<bar> * 2 ^ 1074\<rfloor> - 1075) (- 1022)"

definition ulp :: "real \<Rightarrow> real" where
  "ulp x = 2 powi (binade x - 52)"

definition fl :: "real \<Rightarrow> real" where
  "fl x = of_int (round_half_even (x / ulp x)) * ulp x"

text \<open>\<^verbatim>\<open>a - b\<close> on two floats.\<close>

definition float_sub :: "real \<Rightarrow> real \<Rightarrow> real" where
  "float_sub a b = fl (a - b)"

text \<open>\<^verbatim>\<open>a / b\<close> on a float and a non-zero number.\<close>

definition float_div :: "real \<Rightarrow> real \<Rightarrow> real" where
  "float_div a b = fl (a / b)"

text \<open>\<^verbatim>\<open>a / b\<close> on two integers, \<open>b\<close> not zero: the quotient, correctly rounded.\<close>

definition int_truediv :: "int \<Rightarrow> int \<Rightarrow> real" where
  "int_truediv a b = fl (of_int a / of_int b)"

text \<open>
  \<^verbatim>\<open>round(x, ndigits)\<close> on a float: the exact value of \<open>x\<close> is rounded to \<open>ndigits\<close>
  decimal places, ties to the even digit, and the decimal number obtained is converted
  back to the nearest double.
\<close>

definition py_round :: "real \<Rightarrow> nat \<Rightarrow> real" where
  "py_round x ndigits =
     fl (of_int (round_half_even (x * 10 ^ ndigits)) / 10 ^ ndigits)"

subsection \<open>What the endpoint reads\<close>

text \<open>The results of \<^verbatim>\<open>psutil.virtual_memory()\<close> and \<^verbatim>\<open>psutil.disk_usage('/')\<close>.\<close>

record svmem =
  mem_percent :: real
  mem_available :: int

record sdiskusage =
  disk_percent :: real
  disk_free :: int

text \<open>
  One request's view of the world. A sample is \<open>Inl s\<close> when the psutil call raises an
  exception whose \<^verbatim>\<open>str\<close> is \<open>s\<close>.
\<close>

record env =
  now :: real
  cpu_sample :: "string + real"
  memory_sample :: "string + svmem"
  disk_sample :: "string + sdiskusage"
  utcnow_try :: string
  utcnow_except :: string
  node_env :: "string option"

text \<open>\<^verbatim>\<open>os.getenv(name, default)\<close>.\<close>

definition getenv :: "string option \<Rightarrow> string \<Rightarrow> string" where
  "getenv var dflt = (case var of None \<Rightarrow> dflt | Some v \<Rightarrow> v)"

subsection \<open>The body of \<^verbatim>\<open>health_check\<close>\<close>

text \<open>Lines 50-52: the three samples, in order; the first exception ends the sampling.\<close>

definition sampling :: "env \<Rightarrow> exn + (real \<times> svmem \<times> sdiskusage)" where
  "sampling e =
     (case cpu_sample e of
        Inl s \<Rightarrow> Inl (Fault s)
      | Inr cpu_percent \<Rightarrow>
          (case memory_sample e of
             Inl s \<Rightarrow> Inl (Fault s)
           | Inr memory \<Rightarrow>
               (case disk_sample e of
                  Inl s \<Rightarrow> Inl (Fault s)
                | Inr disk \<Rightarrow> Inr (cpu_percent, memory, disk))))"

text \<open>Lines 54-75: the status and the issues, each assignment in the order of the source.\<close>

definition classify :: "real \<Rightarrow> real \<Rightarrow> real \<Rightarrow> string \<times> string list" where
  "classify cpu_percent memory_percent disk_pct =
     (let status = ''healthy'';
          issues = [];
          (status, issues) =
            (if cpu_percent > 90 then (''degraded'', issues @ [''High CPU usage''])
             else (status, issues));
          (status, issues) =
            (if memory_percent > 90 then (''degraded'', issues @ [''High memory usage''])
             else (status, issues));
          (status, issues) =
            (if disk_pct > 90 then (''degraded'', issues @ [''High disk usage''])
             else (status, issues));
          status =
            (if cpu_percent > 95 \<or> memory_percent > 95 \<or> disk_pct > 95
             then ''unhealthy'' else status)
      in (status, issues))"

text \<open>
  Lines 77-97: the dictionary \<^verbatim>\<open>health_data\<close>, with the key \<^verbatim>\<open>issues\<close> added last
  and only for a non-empty list. The two uptime values of lines 46-47 are computed here:
  they depend on the clock reading of line 46 and on \<^verbatim>\<open>start_time\<close> only, and
  nothing between line 47 and line 80 changes either.
\<close>

definition health_data ::
  "real \<Rightarrow> env \<Rightarrow> real \<Rightarrow> svmem \<Rightarrow> sdiskusage \<Rightarrow> string \<Rightarrow> string list \<Rightarrow> dict" where
  "health_data start_time e cpu_percent memory disk status issues =
     (let uptime_seconds = float_sub (now e) start_time;
          uptime_hours = float_div uptime_seconds 3600;
          d = [(''status'', JStr status),
               (''timestamp'', JStr (utcnow_try e)),
               (''uptime_seconds'', JNum (py_round uptime_seconds 2)),
               (''uptime_hours'', JNum (py_round uptime_hours 2)),
               (''system'', JDict
                  [(''cpu_percent'', JNum cpu_percent),
                   (''memory_percent'', JNum (mem_percent memory)),
                   (''memory_available_gb'',
                      JNum (py_round (int_truediv (mem_available memory) (1024 ^ 3)) 2)),
                   (''disk_percent'', JNum (disk_percent disk)),
                   (''disk_free_gb'',
                      JNum (py_round (int_truediv (disk_free disk) (1024 ^ 3)) 2))]),
               (''service'', JDict
                  [(''name'', JStr ''ml-service''),
                   (''version'', JStr ''1.0.0''),
                   (''environment'', JStr (getenv (node_env e) ''development''))])]
      in if issues \<noteq> [] then dict_set d ''issues'' (JList (map JStr issues)) else d)"

text \<open>Lines 44-103: the \<^verbatim>\<open>try\<close> block. \<open>Inl\<close> is an exception leaving the block, \<open>Inr\<close>
  the value returned at line 103.\<close>

definition try_block :: "real \<Rightarrow> env \<Rightarrow> exn + json" where
  "try_block start_time e =
     (case sampling e of
        Inl x \<Rightarrow> Inl x
      | Inr (cpu_percent, memory, disk) \<Rightarrow>
          (let (status, issues) =
                 classify cpu_percent (mem_percent memory) (disk_percent disk);
               data = health_data start_time e cpu_percent memory disk status issues
           in if status = ''unhealthy''
              then Inl (HTTPException 503 (JDict data))
              else Inr (JDict data)))"

text \<open>Lines 107-115: the dictionary \<^verbatim>\<open>error_response\<close>.\<close>

definition error_response :: "string \<Rightarrow> string \<Rightarrow> dict" where
  "error_response timestamp err =
     [(''status'', JStr ''unhealthy''),
      (''timestamp'', JStr timestamp),
      (''error'', JStr err),
      (''service'', JDict
         [(''name'', JStr ''ml-service''),
          (''version'', JStr ''1.0.0'')])]"

text \<open>
  Lines 40-116: the whole function. The handler \<^verbatim>\<open>except Exception as e\<close> receives
  every exception that leaves the \<^verbatim>\<open>try\<close> block, whichever statement raised it, and
  raises an \<^verbatim>\<open>HTTPException\<close> of its own.
\<close>

definition health_check :: "(int \<Rightarrow> json \<Rightarrow> string) \<Rightarrow> real \<Rightarrow> env \<Rightarrow> exn + json" where
  "health_check http_str start_time e =
     (case try_block start_time e of
        Inl x \<Rightarrow>
          Inl (HTTPException 503
                 (JDict (error_response (utcnow_except e) (str_exn http_str x))))
      | Inr d \<Rightarrow> Inr d)"

text \<open>
  Modelled from the spec: the HTTP layer that calls the handler (FastAPI, not under
  src/). A returned dictionary is served with code 200; an \<^verbatim>\<open>HTTPException\<close> is
  served with its own code and its detail as the payload; any other exception would be
  an internal server error (\<^verbatim>\<open>health_check\<close> lets none out, see \<open>health_check_outcome\<close>).
\<close>

definition response :: "exn + json \<Rightarrow> int \<times> json" where
  "response r =
     (case r of
        Inr d \<Rightarrow> (200, d)
      | Inl (HTTPException code detail) \<Rightarrow> (code, detail)
      | Inl (Fault s) \<Rightarrow> (500, JStr s))"

definition check :: "(int \<Rightarrow> json \<Rightarrow> string) \<Rightarrow> real \<Rightarrow> env \<Rightarrow> int \<times> json" where
  "check http_str start_time e = response (health_check http_str start_time e)"

subsection \<open>Reading a response\<close>

text \<open>A key of a dictionary stored under a key: \<^verbatim>\<open>j[k1][k2]\<close>, \<open>None\<close> when either is absent.\<close>

definition nested_field :: "json \<Rightarrow> string \<Rightarrow> string \<Rightarrow> json option" where
  "nested_field j k1 k2 =
     (case json_field j k1 of Some inner \<Rightarrow> json_field inner k2 | None \<Rightarrow> None)"

text \<open>The number a payload reports as \<^verbatim>\<open>uptime_seconds\<close>, if it reports one.\<close>

definition uptime_seconds_of :: "json \<Rightarrow> real option" where
  "uptime_seconds_of j =
     (case json_field j ''uptime_seconds'' of Some (JNum x) \<Rightarrow> Some x | _ \<Rightarrow> None)"

text \<open>
  A process lifetime is one \<open>start_time\<close> and the requests in the order they are served.
  The uptimes reported are those of the requests whose payload carries one.
\<close>

definition reported_uptimes ::
  "(int \<Rightarrow> json \<Rightarrow> string) \<Rightarrow> real \<Rightarrow> env list \<Rightarrow> real list" where
  "reported_uptimes http_str start_time es =
     List.map_filter (\<lambda>e. uptime_seconds_of (snd (check http_str start_time e))) es"

text \<open>
  What it means for the float \<open>r\<close> to be the float \<open>x\<close> rounded to \<open>n\<close> decimal places:
  \<open>r\<close> is the double nearest to a number with at most \<open>n\<close> decimals, and that number is
  within half a unit of the \<open>n\<close>-th decimal place of \<open>x\<close>.
\<close>

definition rounded_to :: "nat \<Rightarrow> real \<Rightarrow> real \<Rightarrow> bool" where
  "rounded_to n x r \<longleftrightarrow>
     (\<exists>k::int. r = fl (of_int k / 10 ^ n)
        \<and> \<bar>of_int k / 10 ^ n - x\<bar> \<le> 1 / (2 * 10 ^ n))"

subsection \<open>Concrete requests\<close>

definition mem_ok :: svmem where
  "mem_ok = \<lparr>mem_percent = 20, mem_available = 8589934592\<rparr>"

definition disk_ok :: sdiskusage where
  "disk_ok = \<lparr>disk_percent = 30, disk_free = 1073741824\<rparr>"

text \<open>cpu = 10, memory = 20, disk = 30, served 100 seconds after a start at 1000.\<close>

definition env_ok :: env where
  "env_ok =
     \<lparr>now = 1100,
      cpu_sample = Inr 10,
      memory_sample = Inr mem_ok,
      disk_sample = Inr disk_ok,
      utcnow_try = ''2024-01-01T00:00:00'',
      utcnow_except = ''2024-01-01T00:00:01'',
      node_env = None\<rparr>"

definition mem_10 :: svmem where
  "mem_10 = \<lparr>mem_percent = 10, mem_available = 8589934592\<rparr>"

definition disk_10 :: sdiskusage where
  "disk_10 = \<lparr>disk_percent = 10, disk_free = 1073741824\<rparr>"

text \<open>cpu = 96, memory = 10, disk = 10: every sample succeeds and one is critical.\<close>

definition env_cpu96 :: env where
  "env_cpu96 =
     \<lparr>now = 1100,
      cpu_sample = Inr 96,
      memory_sample = Inr mem_10,
      disk_sample = Inr disk_10,
      utcnow_try = ''2024-01-01T00:00:00'',
      utcnow_except = ''2024-01-01T00:00:01'',
      node_env = None\<rparr>"

definition mem_later :: svmem where
  "mem_later = \<lparr>mem_percent = 20, mem_available = 8000000000\<rparr>"

definition disk_later :: sdiskusage where
  "disk_later = \<lparr>disk_percent = 30, disk_free = 123456789012\<rparr>"

text \<open>cpu = 92, memory = 20, disk = 30, served when the clock reads 1123.5, in production.\<close>

definition env_later :: env where
  "env_later =
     \<lparr>now = 1123.5,
      cpu_sample = Inr 92,
      memory_sample = Inr mem_later,
      disk_sample = Inr disk_later,
      utcnow_try = ''2024-06-30T12:00:00'',
      utcnow_except = ''2024-06-30T12:00:01'',
      node_env = Some ''production''\<rparr>"

text \<open>The same request served 18 seconds after a start at 1000.\<close>

definition env_18s :: env where
  "env_18s = env_later\<lparr>now := 1018\<rparr>"

definition mem_91 :: svmem where
  "mem_91 = \<lparr>mem_percent = 91, mem_available = 536870912\<rparr>"

text \<open>cpu = 91, memory = 91, disk = 10: two metrics elevated, none critical.\<close>

definition env_cpu91_mem91 :: env where
  "env_cpu91_mem91 =
     \<lparr>now = 1100,
      cpu_sample = Inr 91,
      memory_sample = Inr mem_91,
      disk_sample = Inr disk_10,
      utcnow_try = ''2024-01-01T00:00:00'',
      utcnow_except = ''2024-01-01T00:00:01'',
      node_env = None\<rparr>"

text \<open>The disk sample raises \<^verbatim>\<open>disk unreadable\<close>.\<close>

definition env_disk_fault :: env where
  "env_disk_fault = env_ok\<lparr>disk_sample := Inl ''disk unreadable''\<rparr>"

section \<open>Facts about the parts\<close>

subsection \<open>Rounding\<close>

lemma round_half_even_bounds:
  "\<lfloor>x\<rfloor> \<le> round_half_even x \<and> round_half_even x \<le> \<lfloor>x\<rfloor> + 1"
  by (simp add: round_half_even_def Let_def)

lemma round_half_even_mono:
  assumes "x \<le> y"
  shows "round_half_even x \<le> round_half_even y"
proof (cases "\<lfloor>x\<rfloor> = \<lfloor>y\<rfloor>")
  case True
  with assms show ?thesis
    by (simp add: round_half_even_def Let_def)
next
  case False
  with assms have "\<lfloor>x\<rfloor> < \<lfloor>y\<rfloor>"
    using floor_mono [of x y] by linarith
  then have "\<lfloor>x\<rfloor> + 1 \<le> \<lfloor>y\<rfloor>" by simp
  with round_half_even_bounds [of x] round_half_even_bounds [of y]
  show ?thesis by linarith
qed

lemma round_half_even_of_int [simp]: "round_half_even (of_int k) = k"
  by (simp add: round_half_even_def)

lemma round_half_even_near: "\<bar>of_int (round_half_even x) - x\<bar> \<le> 1 / 2"
  unfolding round_half_even_def Let_def
  by (auto simp: abs_le_iff)

lemma round_half_even_minus: "round_half_even (- t) = - round_half_even t"
proof (cases "t = of_int \<lfloor>t\<rfloor>")
  case True
  then have "- t = of_int (- \<lfloor>t\<rfloor>)" by simp
  then have "round_half_even (- t) = - \<lfloor>t\<rfloor>"
    by (simp only: round_half_even_of_int)
  moreover from True have "round_half_even t = \<lfloor>t\<rfloor>"
    by (metis round_half_even_of_int)
  ultimately show ?thesis by simp
next
  case False
  then have lt: "of_int \<lfloor>t\<rfloor> < t" by linarith
  have "\<lfloor>- t\<rfloor> = - \<lfloor>t\<rfloor> - 1"
    by (rule floor_unique) (use lt in linarith)+
  then show ?thesis
    by (simp add: round_half_even_def Let_def)
qed

subsection \<open>Doubles\<close>

text \<open>The binade of a number holds it: \<open>2 ^ e \<le> \<bar>x\<bar> < 2 ^ (e + 1)\<close>, the lower bound for
  the normal numbers only.\<close>

lemma binade_upper: "\<bar>x\<bar> < 2 powi (binade x + 1)"
proof -
  let ?n = "\<lfloor>\<bar>x\<bar> * 2 ^ 1074\<rfloor>"
  let ?b = "bitlen ?n"
  have n0: "0 \<le> ?n" by simp
  have b0: "0 \<le> ?b" by (rule bitlen_nonneg)
  have "?n < 2 ^ nat ?b"
  proof (cases "?n = 0")
    case True
    then show ?thesis by simp
  next
    case False
    with n0 have "0 < ?n" by linarith
    then show ?thesis using bitlen_bounds by blast
  qed
  then have "?n + 1 \<le> 2 ^ nat ?b" by simp
  then have "real_of_int (?n + 1) \<le> real_of_int (2 ^ nat ?b)"
    by (rule of_int_le_iff [THEN iffD2])
  then have "real_of_int ?n + 1 \<le> 2 ^ nat ?b" by simp
  moreover have "\<bar>x\<bar> * 2 ^ 1074 < real_of_int ?n + 1" by linarith
  ultimately have "\<bar>x\<bar> * 2 ^ 1074 < 2 ^ nat ?b" by linarith
  also have "\<dots> = 2 powi ?b" using b0 by (simp add: power_int_nonneg_exp)
  finally have "\<bar>x\<bar> < 2 powi ?b / 2 ^ 1074"
    by (simp add: pos_less_divide_eq)
  also have "2 powi ?b / 2 ^ 1074 = (2::real) powi (?b - 1074)"
    by (simp add: power_int_diff)
  also have "\<dots> \<le> 2 powi (binade x + 1)"
    by (rule power_int_increasing) (simp_all add: binade_def)
  finally show ?thesis .
qed

lemma binade_lower:
  assumes "- 1022 < binade x"
  shows "2 powi binade x \<le> \<bar>x\<bar>"
proof -
  let ?n = "\<lfloor>\<bar>x\<bar> * 2 ^ 1074\<rfloor>"
  let ?b = "bitlen ?n"
  from assms have e: "binade x = ?b - 1075" and b: "53 < ?b"
    by (simp_all add: binade_def max_def split: if_splits)
  from b have "?b \<noteq> 0" by simp
  then have "\<not> ?n \<le> 0" using bitlen_eq_zero_iff [of ?n] by blast
  then have "0 < ?n" by (simp only: not_le)
  then have "2 ^ nat (?b - 1) \<le> ?n" using bitlen_bounds by blast
  then have "real_of_int (2 ^ nat (?b - 1)) \<le> real_of_int ?n"
    by (rule of_int_le_iff [THEN iffD2])
  then have "2 ^ nat (?b - 1) \<le> real_of_int ?n" by simp
  also have "\<dots> \<le> \<bar>x\<bar> * 2 ^ 1074" by simp
  finally have "2 ^ nat (?b - 1) / 2 ^ 1074 \<le> \<bar>x\<bar>"
    by (simp add: pos_divide_le_eq)
  moreover have "(2::real) ^ nat (?b - 1) = 2 powi (?b - 1)"
    using b by (simp add: power_int_nonneg_exp)
  moreover have "(2::real) powi (?b - 1) / 2 ^ 1074 = 2 powi (?b - 1 - 1074)"
    by (simp add: power_int_diff)
  ultimately show ?thesis by (simp add: e)
qed

lemma binade_mono:
  assumes "\<bar>x\<bar> \<le> \<bar>y\<bar>"
  shows "binade x \<le> binade y"
proof -
  from assms have "\<bar>x\<bar> * 2 ^ 1074 \<le> \<bar>y\<bar> * 2 ^ 1074" by simp
  then have "\<lfloor>\<bar>x\<bar> * 2 ^ 1074\<rfloor> \<le> \<lfloor>\<bar>y\<bar> * 2 ^ 1074\<rfloor>" by (rule floor_mono)
  then have "bitlen \<lfloor>\<bar>x\<bar> * 2 ^ 1074\<rfloor> \<le> bitlen \<lfloor>\<bar>y\<bar> * 2 ^ 1074\<rfloor>"
    by (simp only: bitlen_def of_nat_le_iff floorlog_mono nat_mono)
  then show ?thesis by (simp add: binade_def)
qed

text \<open>The binade of a concrete number, without counting its digits.\<close>

lemma binade_eqI:
  assumes "2 powi k \<le> \<bar>x\<bar>" and "\<bar>x\<bar> < 2 powi (k + 1)" and "- 1022 \<le> k"
  shows "binade x = k"
proof (rule antisym)
  show "binade x \<le> k"
  proof (rule ccontr)
    assume "\<not> binade x \<le> k"
    then have gt: "k + 1 \<le> binade x" by simp
    with assms(3) have "- 1022 < binade x" by simp
    then have "2 powi binade x \<le> \<bar>x\<bar>" by (rule binade_lower)
    moreover have "(2::real) powi (k + 1) \<le> 2 powi binade x"
      using gt by (intro power_int_increasing) simp_all
    ultimately show False using assms(2) by linarith
  qed
next
  show "k \<le> binade x"
  proof (rule ccontr)
    assume "\<not> k \<le> binade x"
    then have "binade x + 1 \<le> k" by simp
    then have "(2::real) powi (binade x + 1) \<le> 2 powi k"
      by (intro power_int_increasing) simp_all
    with binade_upper [of x] assms(1) show False by linarith
  qed
qed

lemma binade_minus [simp]: "binade (- x) = binade x"
  by (simp add: binade_def)

lemma ulp_pos: "0 < ulp x"
  by (simp add: ulp_def)

lemma ulp_scale53: "2 ^ 53 * ulp a = 2 powi (binade a + 1)"
proof -
  have "(2::real) powi 53 * 2 powi (binade a - 52) = 2 powi (53 + (binade a - 52))"
    by (subst power_int_add) simp_all
  then show ?thesis by (simp add: ulp_def add.commute)
qed

lemma ulp_scale52: "2 ^ 52 * ulp a = 2 powi binade a"
proof -
  have "(2::real) powi 52 * 2 powi (binade a - 52) = 2 powi (52 + (binade a - 52))"
    by (subst power_int_add) simp_all
  then show ?thesis by (simp add: ulp_def)
qed

lemma fl_minus: "fl (- x) = - fl x"
  by (simp add: fl_def ulp_def round_half_even_minus)

lemma fl_zero [simp]: "fl 0 = 0"
  by (simp add: fl_def round_half_even_def)

text \<open>Rounding to the nearest double keeps the order.\<close>

lemma fl_mono:
  assumes "x \<le> y"
  shows "fl x \<le> fl y"
proof -
  have same: "fl a \<le> fl b" if "a \<le> b" "binade a = binade b" for a b
  proof -
    from that(2) have u: "ulp a = ulp b" by (simp add: ulp_def)
    from that(1) have "a / ulp b \<le> b / ulp b"
      using ulp_pos [of b] by (simp add: divide_right_mono)
    then have "round_half_even (a / ulp b) \<le> round_half_even (b / ulp b)"
      by (rule round_half_even_mono)
    then show ?thesis
      using ulp_pos [of b] by (simp add: fl_def u)
  qed
  have top: "fl a \<le> 2 powi (binade a + 1)" for a
  proof -
    have "a \<le> \<bar>a\<bar>" by simp
    also have "\<bar>a\<bar> < 2 powi (binade a + 1)" by (rule binade_upper)
    finally have "a / ulp a \<le> 2 powi (binade a + 1) / ulp a"
      using ulp_pos [of a] by (simp add: divide_right_mono)
    also have "2 powi (binade a + 1) / ulp a = of_int (2 ^ 53)"
      by (simp add: ulp_def power_int_diff [symmetric])
    finally have "round_half_even (a / ulp a) \<le> round_half_even (of_int (2 ^ 53))"
      by (rule round_half_even_mono)
    then have "round_half_even (a / ulp a) \<le> 2 ^ 53"
      by (simp only: round_half_even_of_int)
    then have "real_of_int (round_half_even (a / ulp a)) \<le> 2 ^ 53"
      using of_int_le_iff [of "round_half_even (a / ulp a)" "2 ^ 53", where ?'a = real]
      by simp
    then have "fl a \<le> 2 ^ 53 * ulp a"
      using ulp_pos [of a] by (simp add: fl_def)
    also have "2 ^ 53 * ulp a = 2 powi (binade a + 1)"
      by (rule ulp_scale53)
    finally show ?thesis .
  qed
  have bottom: "2 powi binade a \<le> fl a" if "0 \<le> a" "- 1022 < binade a" for a
  proof -
    from that have "2 powi binade a \<le> a" using binade_lower [of a] by simp
    then have "2 powi binade a / ulp a \<le> a / ulp a"
      using ulp_pos [of a] by (simp add: divide_right_mono)
    moreover have "2 powi binade a / ulp a = of_int (2 ^ 52)"
      by (simp add: ulp_def power_int_diff [symmetric])
    ultimately have "round_half_even (of_int (2 ^ 52)) \<le> round_half_even (a / ulp a)"
      using round_half_even_mono by metis
    then have "2 ^ 52 \<le> round_half_even (a / ulp a)"
      by (simp only: round_half_even_of_int)
    then have "2 ^ 52 \<le> real_of_int (round_half_even (a / ulp a))"
      using of_int_le_iff [of "2 ^ 52" "round_half_even (a / ulp a)", where ?'a = real]
      by simp
    then have "2 ^ 52 * ulp a \<le> fl a"
      using ulp_pos [of a] by (simp add: fl_def)
    moreover have "2 ^ 52 * ulp a = 2 powi binade a"
      by (rule ulp_scale52)
    ultimately show ?thesis by simp
  qed
  have pos: "fl a \<le> fl b" if "0 \<le> a" "a \<le> b" for a b
  proof (cases "binade a = binade b")
    case True
    with that(2) show ?thesis by (rule same)
  next
    case False
    from that have "\<bar>a\<bar> \<le> \<bar>b\<bar>" by simp
    then have "binade a \<le> binade b" by (rule binade_mono)
    with False have lt: "binade a + 1 \<le> binade b" by simp
    have "- 1022 \<le> binade a" by (simp add: binade_def)
    with lt have normal: "- 1022 < binade b" by simp
    have "fl a \<le> 2 powi (binade a + 1)" by (rule top)
    also have "\<dots> \<le> 2 powi binade b"
      using lt by (intro power_int_increasing) simp_all
    also have "\<dots> \<le> fl b"
      using that normal by (intro bottom) simp_all
    finally show ?thesis .
  qed
  consider "0 \<le> x" | "y \<le> 0" | "x < 0" "0 < y" by linarith
  then show ?thesis
  proof cases
    case 1
    with assms show ?thesis by (intro pos)
  next
    case 2
    with assms have "fl (- y) \<le> fl (- x)" by (intro pos) simp_all
    then show ?thesis by (simp add: fl_minus)
  next
    case 3
    then have "fl 0 \<le> fl (- x)" and "fl 0 \<le> fl y" by (intro pos; simp)+
    then show ?thesis by (simp add: fl_minus)
  qed
qed

text \<open>Computing \<open>fl\<close> and \<open>py_round\<close> at a concrete number.\<close>

lemma fl_eq:
  assumes "2 powi k \<le> \<bar>x\<bar>" and "\<bar>x\<bar> < 2 powi (k + 1)" and "- 1022 \<le> k"
  shows "fl x = of_int (round_half_even (x / 2 powi (k - 52))) * 2 powi (k - 52)"
  using binade_eqI [OF assms] by (simp add: fl_def ulp_def)

lemma py_round_eq:
  "round_half_even (x * 10 ^ n) = k \<Longrightarrow> py_round x n = fl (of_int k / 10 ^ n)"
  by (simp add: py_round_def)

lemma fl_values:
  "fl 18 = 18"
  "fl 50 = 50"
  "fl 100 = 100"
proof -
  show "fl 18 = 18"
    by (subst fl_eq [where k = 4]) (simp_all add: round_half_even_def)
  show "fl 50 = 50"
    by (subst fl_eq [where k = 5]) (simp_all add: round_half_even_def)
  show "fl 100 = 100"
    by (subst fl_eq [where k = 6]) (simp_all add: round_half_even_def)
qed

lemma py_round_values:
  "py_round 18 2 = 18"
  "py_round 50 2 = 50"
  "py_round 100 2 = 100"
  by (simp_all add: py_round_def round_half_even_def fl_values)

subsection \<open>Rounding to decimal places\<close>

lemma float_sub_mono: "a \<le> b \<Longrightarrow> float_sub a c \<le> float_sub b c"
  by (simp add: float_sub_def fl_mono)

lemma py_round_mono: "x \<le> y \<Longrightarrow> py_round x n \<le> py_round y n"
  unfolding py_round_def
  by (intro fl_mono divide_right_mono) (simp_all add: round_half_even_mono)

lemma py_round_rounded: "rounded_to n x (py_round x n)"
proof -
  let ?k = "round_half_even (x * 10 ^ n)"
  have "\<bar>of_int ?k - x * 10 ^ n\<bar> \<le> 1 / 2"
    by (rule round_half_even_near)
  then have "\<bar>of_int ?k - x * 10 ^ n\<bar> / 10 ^ n \<le> (1 / 2) / 10 ^ n"
    by (intro divide_right_mono) simp_all
  moreover have "of_int ?k / 10 ^ n - x = (of_int ?k - x * 10 ^ n) / 10 ^ n"
    by (simp add: diff_divide_distrib)
  then have "\<bar>of_int ?k - x * 10 ^ n\<bar> / 10 ^ n = \<bar>of_int ?k / 10 ^ n - x\<bar>"
    by (simp only: abs_divide) simp
  ultimately have "\<bar>of_int ?k / 10 ^ n - x\<bar> \<le> 1 / (2 * 10 ^ n)"
    by simp
  then show ?thesis
    unfolding rounded_to_def py_round_def by blast
qed

subsection \<open>Classification and the dictionaries\<close>

text \<open>The sequence of assignments of lines 54-75 in closed form.\<close>

lemma classify_eq:
  "classify c m d =
     (if c > 95 \<or> m > 95 \<or> d > 95 then ''unhealthy''
      else if c > 90 \<or> m > 90 \<or> d > 90 then ''degraded'' else ''healthy'',
      (if c > 90 then [''High CPU usage''] else []) @
      (if m > 90 then [''High memory usage''] else []) @
      (if d > 90 then [''High disk usage''] else []))"
  by (simp add: classify_def)

lemma health_data_status:
  "dict_get (health_data st e c m d status issues) ''status'' = Some (JStr status)"
  by (simp add: health_data_def dict_get_def Let_def)

lemma health_data_issues:
  "dict_get (health_data st e c m d status issues) ''issues'' =
     (if issues = [] then None else Some (JList (map JStr issues)))"
  by (simp add: health_data_def dict_get_def Let_def)

lemma health_data_uptime:
  "dict_get (health_data st e c m d status issues) ''uptime_seconds'' =
     Some (JNum (py_round (float_sub (now e) st) 2))"
  "dict_get (health_data st e c m d status issues) ''uptime_hours'' =
     Some (JNum (py_round (float_div (float_sub (now e) st) 3600) 2))"
  by (simp_all add: health_data_def dict_get_def Let_def)

lemma health_data_system:
  "dict_get (health_data st e c m d status issues) ''system'' =
     Some (JDict
        [(''cpu_percent'', JNum c),
         (''memory_percent'', JNum (mem_percent m)),
         (''memory_available_gb'', JNum (py_round (int_truediv (mem_available m) (1024 ^ 3)) 2)),
         (''disk_percent'', JNum (disk_percent d)),
         (''disk_free_gb'', JNum (py_round (int_truediv (disk_free d) (1024 ^ 3)) 2))])"
  by (simp add: health_data_def dict_get_def Let_def)

lemma health_data_service:
  "dict_get (health_data st e c m d status issues) ''service'' =
     Some (JDict
        [(''name'', JStr ''ml-service''),
         (''version'', JStr ''1.0.0''),
         (''environment'', JStr (getenv (node_env e) ''development''))])"
  by (simp add: health_data_def dict_get_def Let_def)

lemma nested_field_system:
  "nested_field (JDict (health_data st e c m d status issues)) ''system'' k =
     map_of
       [(''cpu_percent'', JNum c),
        (''memory_percent'', JNum (mem_percent m)),
        (''memory_available_gb'', JNum (py_round (int_truediv (mem_available m) (1024 ^ 3)) 2)),
        (''disk_percent'', JNum (disk_percent d)),
        (''disk_free_gb'', JNum (py_round (int_truediv (disk_free d) (1024 ^ 3)) 2))] k"
  by (simp add: nested_field_def json_field_def health_data_system) (simp add: dict_get_def)

lemma health_data_no_error:
  "dict_get (health_data st e c m d status issues) ''error'' = None"
  by (simp add: health_data_def dict_get_def Let_def)

lemma error_response_fields:
  "dict_get (error_response t s) ''status'' = Some (JStr ''unhealthy'')"
  "dict_get (error_response t s) ''timestamp'' = Some (JStr t)"
  "dict_get (error_response t s) ''error'' = Some (JStr s)"
  "dict_get (error_response t s) ''system'' = None"
  "dict_get (error_response t s) ''issues'' = None"
  "dict_get (error_response t s) ''uptime_seconds'' = None"
  by (simp_all add: error_response_def dict_get_def)

subsection \<open>The three ways through the function\<close>

lemma sampling_disj:
  "(\<exists>s. sampling e = Inl (Fault s)) \<or> (\<exists>c m d. sampling e = Inr (c, m, d))"
  by (simp add: sampling_def split: sum.splits)

lemma sampling_cases:
  obtains s where "sampling e = Inl (Fault s)"
  | c m d where "sampling e = Inr (c, m, d)"
  using sampling_disj [of e] by blast

lemma try_block_sampled:
  "sampling e = Inr (c, m, d) \<Longrightarrow>
   try_block st e =
     (let (status, issues) = classify c (mem_percent m) (disk_percent d);
          data = health_data st e c m d status issues
      in if status = ''unhealthy'' then Inl (HTTPException 503 (JDict data))
         else Inr (JDict data))"
  by (simp add: try_block_def)

text \<open>Without the handler, the \<^verbatim>\<open>try\<close> block alone would serve \<^verbatim>\<open>health_data\<close> either way.\<close>

lemma response_try_block:
  "sampling e = Inr (c, m, d) \<Longrightarrow>
   response (try_block st e) =
     (if c > 95 \<or> mem_percent m > 95 \<or> disk_percent d > 95 then 503 else 200,
      JDict (health_data st e c m d
        (fst (classify c (mem_percent m) (disk_percent d)))
        (snd (classify c (mem_percent m) (disk_percent d)))))"
  by (simp add: response_def try_block_sampled classify_eq)

lemma check_fault:
  "sampling e = Inl (Fault s) \<Longrightarrow>
   check h st e = (503, JDict (error_response (utcnow_except e) s))"
  by (simp add: check_def health_check_def response_def try_block_def)

lemma check_critical:
  "sampling e = Inr (c, m, d) \<Longrightarrow>
   c > 95 \<or> mem_percent m > 95 \<or> disk_percent d > 95 \<Longrightarrow>
   check h st e =
     (503, JDict (error_response (utcnow_except e)
        (h 503 (JDict (health_data st e c m d ''unhealthy''
           (snd (classify c (mem_percent m) (disk_percent d))))))))"
  by (simp add: check_def health_check_def response_def try_block_sampled classify_eq)

lemma check_serving:
  "sampling e = Inr (c, m, d) \<Longrightarrow>
   \<not> (c > 95 \<or> mem_percent m > 95 \<or> disk_percent d > 95) \<Longrightarrow>
   check h st e =
     (200, JDict (health_data st e c m d
        (fst (classify c (mem_percent m) (disk_percent d)))
        (snd (classify c (mem_percent m) (disk_percent d)))))"
  by (simp add: check_def health_check_def response_def try_block_sampled classify_eq)

text \<open>Every exception the function lets out is an \<^verbatim>\<open>HTTPException\<close> with code 503.\<close>

lemma health_check_outcome:
  "(\<exists>d. health_check h st e = Inr d) \<or> (\<exists>d. health_check h st e = Inl (HTTPException 503 d))"
  by (simp add: health_check_def split: sum.splits)

lemma uptime_of_check:
  "uptime_seconds_of (snd (check h st e)) =
     (if fst (check h st e) = 200 then Some (py_round (float_sub (now e) st) 2) else None)"
proof (cases e rule: sampling_cases)
  case (1 s)
  then show ?thesis
    by (simp add: check_fault uptime_seconds_of_def json_field_def error_response_fields)
next
  case (2 c m d)
  show ?thesis
  proof (cases "c > 95 \<or> mem_percent m > 95 \<or> disk_percent d > 95")
    case True
    with 2 show ?thesis
      by (simp add: check_critical uptime_seconds_of_def json_field_def
          error_response_fields)
  next
    case False
    with 2 show ?thesis
      by (simp add: check_serving uptime_seconds_of_def json_field_def health_data_uptime)
  qed
qed

lemma reported_uptimes_eq:
  "reported_uptimes h st es =
     map (\<lambda>e. py_round (float_sub (now e) st) 2)
       (filter (\<lambda>e. fst (check h st e) = 200) es)"
  by (induction es) (simp_all add: reported_uptimes_def uptime_of_check)

subsection \<open>The concrete requests\<close>

lemma sampling_env_ok: "sampling env_ok = Inr (10, mem_ok, disk_ok)"
  by (simp add: sampling_def env_ok_def)

lemma sampling_env_cpu96: "sampling env_cpu96 = Inr (96, mem_10, disk_10)"
  by (simp add: sampling_def env_cpu96_def)

lemma sampling_env_disk_fault: "sampling env_disk_fault = Inl (Fault ''disk unreadable'')"
  by (simp add: sampling_def env_disk_fault_def env_ok_def)

lemma sampling_env_later: "sampling env_later = Inr (92, mem_later, disk_later)"
  by (simp add: sampling_def env_later_def)

lemma sampling_env_18s: "sampling env_18s = Inr (92, mem_later, disk_later)"
  by (simp add: sampling_def env_18s_def env_later_def)

lemma sampling_env_cpu91_mem91: "sampling env_cpu91_mem91 = Inr (91, mem_91, disk_10)"
  by (simp add: sampling_def env_cpu91_mem91_def)

lemma sampling_update_cpu:
  "sampling (env_ok\<lparr>cpu_sample := Inr c\<rparr>) = Inr (c, mem_ok, disk_ok)"
  by (simp add: sampling_def env_ok_def)

lemma sampling_update_now:
  "sampling (env_ok\<lparr>now := t\<rparr>) = Inr (10, mem_ok, disk_ok)"
  by (simp add: sampling_def env_ok_def)

section \<open>The claims\<close>

text \<open>
  C1. Claimed: whenever the classified status is unhealthy (some sampled metric exceeds
  95), the response has code 503 and its body is the health report itself, with
  timestamp, uptime, system metrics, service identity and the accumulated issues.

  On the code, at cpu = 96, memory = 10, disk = 10: the \<^verbatim>\<open>HTTPException\<close> that carries
  \<^verbatim>\<open>health_data\<close> is raised inside the \<^verbatim>\<open>try\<close> block, the handler
  \<^verbatim>\<open>except Exception\<close> receives it, and the body served with code 503 is
  \<^verbatim>\<open>error_response\<close>: it has no system metrics, no issues and no uptime, and the health
  report survives only inside the error string the framework prints.
\<close>

theorem unhealthy_body_is_error_response:
  "check http_str 1000 env_cpu96 =
     (503, JDict
       [(''status'', JStr ''unhealthy''),
        (''timestamp'', JStr ''2024-01-01T00:00:01''),
        (''error'', JStr (http_str 503
           (JDict (health_data 1000 env_cpu96 96 mem_10 disk_10
              ''unhealthy'' [''High CPU usage''])))),
        (''service'', JDict
           [(''name'', JStr ''ml-service''), (''version'', JStr ''1.0.0'')])])
   \<and> json_field (snd (check http_str 1000 env_cpu96)) ''system'' = None
   \<and> json_field (snd (check http_str 1000 env_cpu96)) ''issues'' = None
   \<and> json_field (snd (check http_str 1000 env_cpu96)) ''uptime_seconds'' = None
   \<and> snd (check http_str 1000 env_cpu96) \<noteq>
       JDict (health_data 1000 env_cpu96 96 mem_10 disk_10
          ''unhealthy'' [''High CPU usage''])"
proof -
  have crit: "(96::real) > 95 \<or> mem_percent mem_10 > 95 \<or> disk_percent disk_10 > 95"
    by simp
  have cl: "snd (classify 96 (mem_percent mem_10) (disk_percent disk_10)) =
      [''High CPU usage'']"
    by (simp add: classify_eq mem_10_def disk_10_def)
  have t: "utcnow_except env_cpu96 = ''2024-01-01T00:00:01''"
    by (simp add: env_cpu96_def)
  have eq: "check http_str 1000 env_cpu96 =
      (503, JDict (error_response ''2024-01-01T00:00:01''
        (http_str 503 (JDict (health_data 1000 env_cpu96 96 mem_10 disk_10
           ''unhealthy'' [''High CPU usage''])))))"
    using check_critical [OF sampling_env_cpu96 crit, of http_str 1000]
    by (simp only: cl t)
  have shape: "check http_str 1000 env_cpu96 =
     (503, JDict
       [(''status'', JStr ''unhealthy''),
        (''timestamp'', JStr ''2024-01-01T00:00:01''),
        (''error'', JStr (http_str 503
           (JDict (health_data 1000 env_cpu96 96 mem_10 disk_10
              ''unhealthy'' [''High CPU usage''])))),
        (''service'', JDict
           [(''name'', JStr ''ml-service''), (''version'', JStr ''1.0.0'')])])"
    by (simp only: eq error_response_def)
  have absent:
    "json_field (snd (check http_str 1000 env_cpu96)) ''system'' = None"
    "json_field (snd (check http_str 1000 env_cpu96)) ''issues'' = None"
    "json_field (snd (check http_str 1000 env_cpu96)) ''uptime_seconds'' = None"
    by (simp_all add: eq json_field_def error_response_fields)
  have "json_field (snd (check http_str 1000 env_cpu96)) ''error'' \<noteq>
      json_field (JDict (health_data 1000 env_cpu96 96 mem_10 disk_10
          ''unhealthy'' [''High CPU usage''])) ''error''"
    by (simp add: eq json_field_def error_response_fields health_data_no_error)
  then have differ: "snd (check http_str 1000 env_cpu96) \<noteq>
      JDict (health_data 1000 env_cpu96 96 mem_10 disk_10
          ''unhealthy'' [''High CPU usage''])"
    by metis
  from shape absent differ show ?thesis by blast
qed

text \<open>
  C2. Claimed: a fault raised during metric sampling is the only condition under which
  an error report is produced; when sampling succeeds the payload is a health report.

  On the code: whenever all three samples succeed and one of them exceeds 95, the
  payload is \<^verbatim>\<open>error_response\<close>, with an \<^verbatim>\<open>error\<close> key and without the system
  metrics. This is the defect of C1 seen from the other side.
\<close>

theorem sampled_critical_gives_error_report:
  assumes "sampling e = Inr (cpu, memory, disk)"
    and "cpu > 95 \<or> mem_percent memory > 95 \<or> disk_percent disk > 95"
  shows "\<exists>err. check http_str start_time e =
             (503, JDict (error_response (utcnow_except e) err))
       \<and> json_field (snd (check http_str start_time e)) ''error'' = Some (JStr err)
       \<and> json_field (snd (check http_str start_time e)) ''system'' = None"
  using check_critical [OF assms, of http_str start_time]
  by (simp add: json_field_def error_response_fields)

theorem sampled_critical_gives_error_report_witness:
  "sampling (env_ok\<lparr>cpu_sample := Inr 99\<rparr>) = Inr (99, mem_ok, disk_ok)
   \<and> (\<exists>err. check (\<lambda>code detail. ''503'') 1000 (env_ok\<lparr>cpu_sample := Inr 99\<rparr>) =
         (503, JDict (error_response (utcnow_except (env_ok\<lparr>cpu_sample := Inr 99\<rparr>)) err))
       \<and> json_field (snd (check (\<lambda>code detail. ''503'') 1000 (env_ok\<lparr>cpu_sample := Inr 99\<rparr>)))
            ''error'' = Some (JStr err)
       \<and> json_field (snd (check (\<lambda>code detail. ''503'') 1000 (env_ok\<lparr>cpu_sample := Inr 99\<rparr>)))
            ''system'' = None)"
proof -
  have s: "sampling (env_ok\<lparr>cpu_sample := Inr 99\<rparr>) = Inr (99, mem_ok, disk_ok)"
    by (rule sampling_update_cpu)
  have c: "(99::real) > 95 \<or> mem_percent mem_ok > 95 \<or> disk_percent disk_ok > 95"
    by simp
  from sampled_critical_gives_error_report [OF s c, of "\<lambda>code detail. ''503''" 1000] s
  show ?thesis by blast
qed

text \<open>
  C3. For every triple of metrics, if one of them exceeds 95 the classified status is
  unhealthy whatever the others are, and the issues are exactly the entries of the
  metrics that exceed 90, in the order CPU, memory, disk: the escalation to unhealthy
  leaves the list as the three 90% checks built it.
\<close>

theorem escalation_retains_issues:
  assumes "cpu > 95 \<or> mem > 95 \<or> disk > 95"
  shows "classify cpu mem disk =
     (''unhealthy'',
      (if cpu > 90 then [''High CPU usage''] else []) @
      (if mem > 90 then [''High memory usage''] else []) @
      (if disk > 90 then [''High disk usage''] else []))"
  using assms by (simp add: classify_def)

theorem escalation_retains_issues_witness:
  "((96::real) > 95 \<or> (91::real) > 95 \<or> (10::real) > 95)
   \<and> classify 96 91 10 = (''unhealthy'', [''High CPU usage'', ''High memory usage''])"
proof -
  have h: "(96::real) > 95 \<or> (91::real) > 95 \<or> (10::real) > 95" by simp
  from escalation_retains_issues [OF h] h show ?thesis by simp
qed

text \<open>
  C4. For every triple of metrics with each metric in [0, 90], the request is answered
  with code 200, the status of the report is healthy, and the report has no
  \<^verbatim>\<open>issues\<close> key at all.
\<close>

theorem within_90_healthy:
  assumes "sampling e = Inr (cpu, memory, disk)"
    and "cpu \<in> {0..90}"
    and "mem_percent memory \<in> {0..90}"
    and "disk_percent disk \<in> {0..90}"
  shows "check http_str start_time e =
           (200, JDict (health_data start_time e cpu memory disk ''healthy'' []))
       \<and> json_field (snd (check http_str start_time e)) ''status'' = Some (JStr ''healthy'')
       \<and> json_field (snd (check http_str start_time e)) ''issues'' = None"
proof -
  from assms(2-4)
  have "classify cpu (mem_percent memory) (disk_percent disk) = (''healthy'', [])"
    by (simp add: classify_def)
  with assms(1)
  have "check http_str start_time e =
          (200, JDict (health_data start_time e cpu memory disk ''healthy'' []))"
    by (simp add: check_def health_check_def response_def try_block_sampled)
  then show ?thesis
    by (simp add: json_field_def health_data_status health_data_issues)
qed

theorem within_90_healthy_witness:
  "sampling env_ok = Inr (10, mem_ok, disk_ok)
   \<and> (10::real) \<in> {0..90} \<and> mem_percent mem_ok \<in> {0..90} \<and> disk_percent disk_ok \<in> {0..90}
   \<and> check (\<lambda>code detail. []) 1000 env_ok =
        (200, JDict (health_data 1000 env_ok 10 mem_ok disk_ok ''healthy'' []))
   \<and> json_field (snd (check (\<lambda>code detail. []) 1000 env_ok)) ''status'' =
        Some (JStr ''healthy'')
   \<and> json_field (snd (check (\<lambda>code detail. []) 1000 env_ok)) ''issues'' = None"
proof -
  have a: "(10::real) \<in> {0..90}" by simp
  have b: "mem_percent mem_ok \<in> {0..90}" by (simp add: mem_ok_def)
  have c: "disk_percent disk_ok \<in> {0..90}" by (simp add: disk_ok_def)
  from within_90_healthy [OF sampling_env_ok a b c, of "\<lambda>code detail. []" 1000]
    sampling_env_ok a b c
  show ?thesis by blast
qed

text \<open>
  C5. For every triple of metrics where exactly one metric lies in (90, 95] and the
  other two are at most 90, the request is answered with code 200, the status of the
  report is degraded, and the issues are the one message of the elevated metric.
\<close>

theorem single_elevated_degraded:
  assumes "sampling e = Inr (cpu, memory, disk)"
    and "(90 < cpu \<and> cpu \<le> 95 \<and> mem_percent memory \<le> 90 \<and> disk_percent disk \<le> 90
            \<and> msg = ''High CPU usage'')
       \<or> (cpu \<le> 90 \<and> 90 < mem_percent memory \<and> mem_percent memory \<le> 95
            \<and> disk_percent disk \<le> 90 \<and> msg = ''High memory usage'')
       \<or> (cpu \<le> 90 \<and> mem_percent memory \<le> 90 \<and> 90 < disk_percent disk
            \<and> disk_percent disk \<le> 95 \<and> msg = ''High disk usage'')"
  shows "check http_str start_time e =
           (200, JDict (health_data start_time e cpu memory disk ''degraded'' [msg]))
       \<and> json_field (snd (check http_str start_time e)) ''status'' = Some (JStr ''degraded'')
       \<and> json_field (snd (check http_str start_time e)) ''issues'' = Some (JList [JStr msg])"
proof -
  from assms(2)
  have "classify cpu (mem_percent memory) (disk_percent disk) = (''degraded'', [msg])"
    by (auto simp add: classify_def)
  with assms(1)
  have "check http_str start_time e =
          (200, JDict (health_data start_time e cpu memory disk ''degraded'' [msg]))"
    by (simp add: check_def health_check_def response_def try_block_sampled)
  then show ?thesis
    by (simp add: json_field_def health_data_status health_data_issues)
qed

theorem single_elevated_degraded_witness:
  "sampling (env_ok\<lparr>cpu_sample := Inr 92\<rparr>) = Inr (92, mem_ok, disk_ok)
   \<and> (90 < (92::real) \<and> (92::real) \<le> 95 \<and> mem_percent mem_ok \<le> 90 \<and> disk_percent disk_ok \<le> 90)
   \<and> check (\<lambda>code detail. []) 1000 (env_ok\<lparr>cpu_sample := Inr 92\<rparr>) =
        (200, JDict (health_data 1000 (env_ok\<lparr>cpu_sample := Inr 92\<rparr>) 92 mem_ok disk_ok
           ''degraded'' [''High CPU usage'']))
   \<and> json_field (snd (check (\<lambda>code detail. []) 1000 (env_ok\<lparr>cpu_sample := Inr 92\<rparr>)))
        ''status'' = Some (JStr ''degraded'')
   \<and> json_field (snd (check (\<lambda>code detail. []) 1000 (env_ok\<lparr>cpu_sample := Inr 92\<rparr>)))
        ''issues'' = Some (JList [JStr ''High CPU usage''])"
proof -
  have s: "sampling (env_ok\<lparr>cpu_sample := Inr 92\<rparr>) = Inr (92, mem_ok, disk_ok)"
    by (rule sampling_update_cpu)
  have a: "90 < (92::real) \<and> (92::real) \<le> 95 \<and> mem_percent mem_ok \<le> 90
      \<and> disk_percent disk_ok \<le> 90"
    by (simp add: mem_ok_def disk_ok_def)
  then have h: "(90 < (92::real) \<and> (92::real) \<le> 95 \<and> mem_percent mem_ok \<le> 90
            \<and> disk_percent disk_ok \<le> 90 \<and> ''High CPU usage'' = ''High CPU usage'')
       \<or> ((92::real) \<le> 90 \<and> 90 < mem_percent mem_ok \<and> mem_percent mem_ok \<le> 95
            \<and> disk_percent disk_ok \<le> 90 \<and> ''High CPU usage'' = ''High memory usage'')
       \<or> ((92::real) \<le> 90 \<and> mem_percent mem_ok \<le> 90 \<and> 90 < disk_percent disk_ok
            \<and> disk_percent disk_ok \<le> 95 \<and> ''High CPU usage'' = ''High disk usage'')"
    by blast
  from single_elevated_degraded [OF s h, of "\<lambda>code detail. []" 1000] s a
  show ?thesis by blast
qed

text \<open>
  C6. For every metric triple, the issues the function lists are the messages of the
  metrics above 90 in the order CPU, memory, disk, a subsequence of the three messages
  in that order. The report built by the \<^verbatim>\<open>try\<close> block carries exactly that list under
  \<^verbatim>\<open>issues\<close> (no key when it is empty), and the payload served carries the same list
  in the same order whenever it carries one (it carries none when a metric exceeds 95).
\<close>

theorem issues_order_fixed:
  assumes "sampling e = Inr (cpu, memory, disk)"
  shows "\<exists>issues.
       issues =
         (if cpu > 90 then [''High CPU usage''] else []) @
         (if mem_percent memory > 90 then [''High memory usage''] else []) @
         (if disk_percent disk > 90 then [''High disk usage''] else [])
     \<and> subseq issues [''High CPU usage'', ''High memory usage'', ''High disk usage'']
     \<and> json_field (snd (response (try_block start_time e))) ''issues'' =
         (if issues = [] then None else Some (JList (map JStr issues)))
     \<and> json_field (snd (check http_str start_time e)) ''issues'' =
         (if issues = [] \<or> cpu > 95 \<or> mem_percent memory > 95 \<or> disk_percent disk > 95
          then None else Some (JList (map JStr issues)))"
proof -
  let ?issues = "snd (classify cpu (mem_percent memory) (disk_percent disk))"
  have list: "?issues =
         (if cpu > 90 then [''High CPU usage''] else []) @
         (if mem_percent memory > 90 then [''High memory usage''] else []) @
         (if disk_percent disk > 90 then [''High disk usage''] else [])"
    by (simp add: classify_eq)
  have ordered:
    "subseq ?issues [''High CPU usage'', ''High memory usage'', ''High disk usage'']"
    by (simp add: classify_eq)
  have built: "json_field (snd (response (try_block start_time e))) ''issues'' =
      (if ?issues = [] then None else Some (JList (map JStr ?issues)))"
    by (simp add: response_try_block [OF assms] json_field_def health_data_issues)
  have served: "json_field (snd (check http_str start_time e)) ''issues'' =
      (if ?issues = [] \<or> cpu > 95 \<or> mem_percent memory > 95 \<or> disk_percent disk > 95
       then None else Some (JList (map JStr ?issues)))"
  proof (cases "cpu > 95 \<or> mem_percent memory > 95 \<or> disk_percent disk > 95")
    case True
    then show ?thesis
      by (simp add: check_critical [OF assms] json_field_def error_response_fields)
  next
    case False
    then show ?thesis
      by (simp add: check_serving [OF assms] json_field_def health_data_issues)
  qed
  from list ordered built served show ?thesis by blast
qed

theorem issues_order_fixed_witness:
  "sampling env_cpu91_mem91 = Inr (91, mem_91, disk_10)
   \<and> json_field (snd (response (try_block 1000 env_cpu91_mem91))) ''issues'' =
        Some (JList [JStr ''High CPU usage'', JStr ''High memory usage''])
   \<and> json_field (snd (check (\<lambda>code detail. []) 1000 env_cpu91_mem91)) ''issues'' =
        Some (JList [JStr ''High CPU usage'', JStr ''High memory usage''])"
proof -
  from issues_order_fixed [OF sampling_env_cpu91_mem91, of 1000 "\<lambda>code detail. []"]
  obtain issues where
    l: "issues =
         (if (91::real) > 90 then [''High CPU usage''] else []) @
         (if mem_percent mem_91 > 90 then [''High memory usage''] else []) @
         (if disk_percent disk_10 > 90 then [''High disk usage''] else [])"
    and b: "json_field (snd (response (try_block 1000 env_cpu91_mem91))) ''issues'' =
         (if issues = [] then None else Some (JList (map JStr issues)))"
    and c: "json_field (snd (check (\<lambda>code detail. []) 1000 env_cpu91_mem91)) ''issues'' =
         (if issues = [] \<or> (91::real) > 95 \<or> mem_percent mem_91 > 95
             \<or> disk_percent disk_10 > 95
          then None else Some (JList (map JStr issues)))"
    by blast
  from l have v: "issues = [''High CPU usage'', ''High memory usage'']"
    by (simp add: mem_91_def disk_10_def)
  from b c show ?thesis
    unfolding v by (simp add: sampling_env_cpu91_mem91 mem_91_def disk_10_def)
qed

text \<open>
  C7. Claimed: whenever metric sampling raises a fault, the response has code 503 and an
  error report with status unhealthy, a timestamp, the fault's description, and the full
  service identity (name, version and environment), without \<^verbatim>\<open>system\<close> and
  \<^verbatim>\<open>issues\<close>.

  The service record of \<^verbatim>\<open>error_response\<close> is written out with a name and a version
  only. When the disk sample raises, the error report has no environment, while the
  health report of a request that succeeds has one.
\<close>

theorem error_report_environment_counterexample:
  "sampling env_disk_fault = Inl (Fault ''disk unreadable'')
   \<and> nested_field (snd (check (\<lambda>code detail. []) 1000 env_disk_fault))
        ''service'' ''environment'' = None
   \<and> nested_field (snd (check (\<lambda>code detail. []) 1000 env_ok))
        ''service'' ''environment'' = Some (JStr ''development'')"
proof -
  have "nested_field (snd (check (\<lambda>code detail. []) 1000 env_disk_fault))
        ''service'' ''environment'' = None"
    by (simp add: check_fault [OF sampling_env_disk_fault] nested_field_def json_field_def
        dict_get_def error_response_def)
  moreover have ok: "\<not> ((10::real) > 95 \<or> mem_percent mem_ok > 95 \<or> disk_percent disk_ok > 95)"
    by (simp add: mem_ok_def disk_ok_def)
  have unset: "getenv (node_env env_ok) ''development'' = ''development''"
    by (simp add: getenv_def env_ok_def)
  have "nested_field (snd (check (\<lambda>code detail. []) 1000 env_ok))
        ''service'' ''environment'' = Some (JStr ''development'')"
    by (simp add: check_serving [OF sampling_env_ok ok] nested_field_def json_field_def
        health_data_service unset) (simp add: dict_get_def)
  ultimately show ?thesis
    using sampling_env_disk_fault by blast
qed

text \<open>
  C7, amended. Whenever metric sampling raises a fault, the response has code 503 and
  its body is exactly the dictionary with status unhealthy, the timestamp taken in the
  handler, the fault's description, and a service record holding the name and the
  version; it has no \<^verbatim>\<open>system\<close> key and no \<^verbatim>\<open>issues\<close> key.
\<close>

theorem sampling_fault_error_report:
  assumes "sampling e = Inl (Fault s)"
  shows "check http_str start_time e =
           (503, JDict
             [(''status'', JStr ''unhealthy''),
              (''timestamp'', JStr (utcnow_except e)),
              (''error'', JStr s),
              (''service'', JDict
                 [(''name'', JStr ''ml-service''), (''version'', JStr ''1.0.0'')])])
       \<and> json_field (snd (check http_str start_time e)) ''system'' = None
       \<and> json_field (snd (check http_str start_time e)) ''issues'' = None"
  using check_fault [OF assms, of http_str start_time]
  by (simp add: json_field_def error_response_fields) (simp add: error_response_def)

theorem sampling_fault_error_report_witness:
  "sampling env_disk_fault = Inl (Fault ''disk unreadable'')
   \<and> check (\<lambda>code detail. []) 1000 env_disk_fault =
           (503, JDict
             [(''status'', JStr ''unhealthy''),
              (''timestamp'', JStr (utcnow_except env_disk_fault)),
              (''error'', JStr ''disk unreadable''),
              (''service'', JDict
                 [(''name'', JStr ''ml-service''), (''version'', JStr ''1.0.0'')])])
   \<and> json_field (snd (check (\<lambda>code detail. []) 1000 env_disk_fault)) ''system'' = None
   \<and> json_field (snd (check (\<lambda>code detail. []) 1000 env_disk_fault)) ''issues'' = None"
  using sampling_fault_error_report [OF sampling_env_disk_fault, of "\<lambda>code detail. []" 1000]
    sampling_env_disk_fault
  by blast

text \<open>
  C8. Claimed: across any sequence of successful calls within one process lifetime the
  reported \<^verbatim>\<open>uptime_seconds\<close> never decreases.

  The uptime is the difference of two readings of the wall clock (\<^verbatim>\<open>time.time()\<close>),
  which the system may set back between two requests. With a start at 1000, a request
  served when the clock reads 1100 and a later one served when it reads 1050 report 100
  and then 50.
\<close>

theorem uptime_decreases_counterexample:
  "\<not> sorted (reported_uptimes (\<lambda>code detail. []) 1000 [env_ok, env_ok\<lparr>now := 1050\<rparr>])"
proof -
  have ok: "\<not> ((10::real) > 95 \<or> mem_percent mem_ok > 95 \<or> disk_percent disk_ok > 95)"
    by (simp add: mem_ok_def disk_ok_def)
  have a: "fst (check (\<lambda>code detail. []) 1000 env_ok) = 200"
    by (simp add: check_serving [OF sampling_env_ok ok])
  have b: "fst (check (\<lambda>code detail. []) 1000 (env_ok\<lparr>now := 1050\<rparr>)) = 200"
    by (simp add: check_serving [OF sampling_update_now ok])
  have c: "now env_ok = 1100"
    by (simp add: env_ok_def)
  have "reported_uptimes (\<lambda>code detail. []) 1000 [env_ok, env_ok\<lparr>now := 1050\<rparr>] = [100, 50]"
    by (simp add: reported_uptimes_eq a b c float_sub_def fl_values py_round_values)
  then show ?thesis by simp
qed

text \<open>
  C8, amended. Across any sequence of calls within one process lifetime during which
  the readings of the clock do not decrease from one call to the next, the
  \<^verbatim>\<open>uptime_seconds\<close> reported by the successful calls never decreases.
\<close>

theorem uptime_monotone_in_clock:
  assumes "sorted (map now es)"
  shows "sorted (reported_uptimes http_str start_time es)"
proof -
  let ?ok = "filter (\<lambda>e. fst (check http_str start_time e) = 200) es"
  from assms have "sorted (map now ?ok)"
    by (rule sorted_filter)
  then have "sorted_wrt (\<lambda>a b. now a \<le> now b) ?ok"
    by (simp add: sorted_wrt_map)
  then have "sorted_wrt
      (\<lambda>a b. py_round (float_sub (now a) start_time) 2
                \<le> py_round (float_sub (now b) start_time) 2) ?ok"
    by (rule sorted_wrt_mono_rel [rotated]) (simp add: py_round_mono float_sub_mono)
  then show ?thesis
    by (simp add: reported_uptimes_eq sorted_wrt_map)
qed

theorem uptime_monotone_in_clock_witness:
  "sorted (map now [env_ok\<lparr>now := 1050\<rparr>, env_ok])
   \<and> sorted (reported_uptimes (\<lambda>code detail. []) 1000 [env_ok\<lparr>now := 1050\<rparr>, env_ok])
   \<and> reported_uptimes (\<lambda>code detail. []) 1000 [env_ok\<lparr>now := 1050\<rparr>, env_ok] = [50, 100]"
proof -
  have s: "sorted (map now [env_ok\<lparr>now := 1050\<rparr>, env_ok])"
    by (simp add: env_ok_def)
  have ok: "\<not> ((10::real) > 95 \<or> mem_percent mem_ok > 95 \<or> disk_percent disk_ok > 95)"
    by (simp add: mem_ok_def disk_ok_def)
  have a: "fst (check (\<lambda>code detail. []) 1000 env_ok) = 200"
    by (simp add: check_serving [OF sampling_env_ok ok])
  have b: "fst (check (\<lambda>code detail. []) 1000 (env_ok\<lparr>now := 1050\<rparr>)) = 200"
    by (simp add: check_serving [OF sampling_update_now ok])
  have c: "now env_ok = 1100"
    by (simp add: env_ok_def)
  have v: "reported_uptimes (\<lambda>code detail. []) 1000 [env_ok\<lparr>now := 1050\<rparr>, env_ok] = [50, 100]"
    by (simp add: reported_uptimes_eq a b c float_sub_def fl_values py_round_values)
  from uptime_monotone_in_clock [OF s, of "\<lambda>code detail. []" 1000] s v
  show ?thesis by blast
qed

text \<open>
  C9. The classified status and the issues depend on the triple of metrics alone. Take
  two requests, served at any times, in any process, with any timestamps, free memory,
  free disk space and environment: if both sample the same cpu, memory and disk
  percentages, the reports their \<^verbatim>\<open>try\<close> blocks build carry the same status and the
  same issues, and their responses have the same code, the same status and the same
  issues.
\<close>

theorem status_depends_on_triple_only:
  assumes "sampling e1 = Inr (cpu1, memory1, disk1)"
    and "sampling e2 = Inr (cpu2, memory2, disk2)"
    and "cpu1 = cpu2"
    and "mem_percent memory1 = mem_percent memory2"
    and "disk_percent disk1 = disk_percent disk2"
  shows "json_field (snd (response (try_block start1 e1))) ''status'' =
         json_field (snd (response (try_block start2 e2))) ''status''
       \<and> json_field (snd (response (try_block start1 e1))) ''issues'' =
         json_field (snd (response (try_block start2 e2))) ''issues''
       \<and> json_field (snd (response (try_block start1 e1))) ''status'' =
         Some (JStr (fst (classify cpu1 (mem_percent memory1) (disk_percent disk1))))
       \<and> fst (check http_str1 start1 e1) = fst (check http_str2 start2 e2)
       \<and> json_field (snd (check http_str1 start1 e1)) ''status'' =
         json_field (snd (check http_str2 start2 e2)) ''status''
       \<and> json_field (snd (check http_str1 start1 e1)) ''issues'' =
         json_field (snd (check http_str2 start2 e2)) ''issues''"
proof -
  have built:
    "json_field (snd (response (try_block start1 e1))) ''status'' =
       json_field (snd (response (try_block start2 e2))) ''status''"
    "json_field (snd (response (try_block start1 e1))) ''issues'' =
       json_field (snd (response (try_block start2 e2))) ''issues''"
    "json_field (snd (response (try_block start1 e1))) ''status'' =
       Some (JStr (fst (classify cpu1 (mem_percent memory1) (disk_percent disk1))))"
    using assms(3-5)
    by (simp_all add: response_try_block [OF assms(1)] response_try_block [OF assms(2)]
        json_field_def health_data_status health_data_issues)
  have served:
    "fst (check http_str1 start1 e1) = fst (check http_str2 start2 e2)
     \<and> json_field (snd (check http_str1 start1 e1)) ''status'' =
       json_field (snd (check http_str2 start2 e2)) ''status''
     \<and> json_field (snd (check http_str1 start1 e1)) ''issues'' =
       json_field (snd (check http_str2 start2 e2)) ''issues''"
  proof (cases "cpu1 > 95 \<or> mem_percent memory1 > 95 \<or> disk_percent disk1 > 95")
    case True
    then have "cpu2 > 95 \<or> mem_percent memory2 > 95 \<or> disk_percent disk2 > 95"
      using assms(3-5) by simp
    with True show ?thesis
      by (simp add: check_critical [OF assms(1)] check_critical [OF assms(2)]
          json_field_def error_response_fields)
  next
    case False
    then have "\<not> (cpu2 > 95 \<or> mem_percent memory2 > 95 \<or> disk_percent disk2 > 95)"
      using assms(3-5) by simp
    with False assms(3-5) show ?thesis
      by (simp add: check_serving [OF assms(1)] check_serving [OF assms(2)]
          json_field_def health_data_status health_data_issues)
  qed
  from built served show ?thesis by blast
qed

theorem status_depends_on_triple_only_witness:
  "sampling (env_ok\<lparr>cpu_sample := Inr 92\<rparr>) = Inr (92, mem_ok, disk_ok)
   \<and> sampling env_later = Inr (92, mem_later, disk_later)
   \<and> mem_percent mem_ok = mem_percent mem_later
   \<and> disk_percent disk_ok = disk_percent disk_later
   \<and> env_ok\<lparr>cpu_sample := Inr 92\<rparr> \<noteq> env_later
   \<and> json_field (snd (check (\<lambda>code detail. []) 1000 (env_ok\<lparr>cpu_sample := Inr 92\<rparr>)))
        ''status'' =
      json_field (snd (check (\<lambda>code detail. ''503'') 0 env_later)) ''status''
   \<and> json_field (snd (check (\<lambda>code detail. []) 1000 (env_ok\<lparr>cpu_sample := Inr 92\<rparr>)))
        ''issues'' =
      json_field (snd (check (\<lambda>code detail. ''503'') 0 env_later)) ''issues''"
proof -
  have s: "sampling (env_ok\<lparr>cpu_sample := Inr 92\<rparr>) = Inr (92, mem_ok, disk_ok)"
    by (rule sampling_update_cpu)
  have m: "mem_percent mem_ok = mem_percent mem_later"
    by (simp add: mem_ok_def mem_later_def)
  have d: "disk_percent disk_ok = disk_percent disk_later"
    by (simp add: disk_ok_def disk_later_def)
  have n: "env_ok\<lparr>cpu_sample := Inr 92\<rparr> \<noteq> env_later"
    by (simp add: env_ok_def env_later_def)
  from status_depends_on_triple_only [OF s sampling_env_later refl m d,
      of 1000 0 "\<lambda>code detail. []" "\<lambda>code detail. ''503''"] s sampling_env_later m d n
  show ?thesis by blast
qed

text \<open>
  C10. In every health report served, \<^verbatim>\<open>uptime_seconds\<close>, \<^verbatim>\<open>uptime_hours\<close>,
  \<^verbatim>\<open>memory_available_gb\<close> and \<^verbatim>\<open>disk_free_gb\<close> are the raw floats rounded to two
  decimal places by \<^verbatim>\<open>round\<close>. The hours are rounded from the raw seconds divided by
  3600, not from the rounded seconds. \<^verbatim>\<open>cpu_percent\<close>, \<^verbatim>\<open>memory_percent\<close> and
  \<^verbatim>\<open>disk_percent\<close> are the samples as they came.
\<close>

theorem report_rounding:
  assumes "fst (check http_str start_time e) = 200"
  shows "\<exists>cpu memory disk seconds hours available free.
       sampling e = Inr (cpu, memory, disk)
     \<and> json_field (snd (check http_str start_time e)) ''uptime_seconds'' = Some (JNum seconds)
     \<and> seconds = py_round (float_sub (now e) start_time) 2
     \<and> rounded_to 2 (float_sub (now e) start_time) seconds
     \<and> json_field (snd (check http_str start_time e)) ''uptime_hours'' = Some (JNum hours)
     \<and> hours = py_round (float_div (float_sub (now e) start_time) 3600) 2
     \<and> rounded_to 2 (float_div (float_sub (now e) start_time) 3600) hours
     \<and> nested_field (snd (check http_str start_time e)) ''system'' ''memory_available_gb'' =
         Some (JNum available)
     \<and> available = py_round (int_truediv (mem_available memory) (1024 ^ 3)) 2
     \<and> rounded_to 2 (int_truediv (mem_available memory) (1024 ^ 3)) available
     \<and> nested_field (snd (check http_str start_time e)) ''system'' ''disk_free_gb'' =
         Some (JNum free)
     \<and> free = py_round (int_truediv (disk_free disk) (1024 ^ 3)) 2
     \<and> rounded_to 2 (int_truediv (disk_free disk) (1024 ^ 3)) free
     \<and> nested_field (snd (check http_str start_time e)) ''system'' ''cpu_percent'' =
         Some (JNum cpu)
     \<and> nested_field (snd (check http_str start_time e)) ''system'' ''memory_percent'' =
         Some (JNum (mem_percent memory))
     \<and> nested_field (snd (check http_str start_time e)) ''system'' ''disk_percent'' =
         Some (JNum (disk_percent disk))"
proof (cases e rule: sampling_cases)
  case (1 s)
  with assms show ?thesis
    by (simp add: check_fault)
next
  case (2 cpu memory disk)
  show ?thesis
  proof (cases "cpu > 95 \<or> mem_percent memory > 95 \<or> disk_percent disk > 95")
    case True
    with 2 assms show ?thesis
      by (simp add: check_critical)
  next
    case False
    note served = check_serving [OF 2 False, of http_str start_time]
    have "json_field (snd (check http_str start_time e)) ''uptime_seconds'' =
        Some (JNum (py_round (float_sub (now e) start_time) 2))"
      and "json_field (snd (check http_str start_time e)) ''uptime_hours'' =
        Some (JNum (py_round (float_div (float_sub (now e) start_time) 3600) 2))"
      and "nested_field (snd (check http_str start_time e)) ''system'' ''memory_available_gb'' =
        Some (JNum (py_round (int_truediv (mem_available memory) (1024 ^ 3)) 2))"
      and "nested_field (snd (check http_str start_time e)) ''system'' ''disk_free_gb'' =
        Some (JNum (py_round (int_truediv (disk_free disk) (1024 ^ 3)) 2))"
      and "nested_field (snd (check http_str start_time e)) ''system'' ''cpu_percent'' =
        Some (JNum cpu)"
      and "nested_field (snd (check http_str start_time e)) ''system'' ''memory_percent'' =
        Some (JNum (mem_percent memory))"
      and "nested_field (snd (check http_str start_time e)) ''system'' ''disk_percent'' =
        Some (JNum (disk_percent disk))"
      by (simp_all add: served json_field_def health_data_uptime nested_field_system)
    with 2 py_round_rounded show ?thesis
      by blast
  qed
qed

text \<open>
  At 18 seconds of uptime the raw hours are the double nearest to 0.005, which lies just
  above it, so they round to 0.01 and not to 0.00; the double reported is neither the
  raw hours nor the reported seconds divided by 3600.
\<close>

theorem report_rounding_witness:
  "fst (check (\<lambda>code detail. []) 1000 env_18s) = 200
   \<and> json_field (snd (check (\<lambda>code detail. []) 1000 env_18s)) ''uptime_seconds'' =
        Some (JNum 18)
   \<and> json_field (snd (check (\<lambda>code detail. []) 1000 env_18s)) ''uptime_hours'' =
        Some (JNum (5764607523034235 / 576460752303423488))
   \<and> fl 0.01 = 5764607523034235 / 576460752303423488
   \<and> float_div 18 3600 = 5764607523034235 / 1152921504606846976
   \<and> nested_field (snd (check (\<lambda>code detail. []) 1000 env_18s))
        ''system'' ''memory_available_gb'' = Some (JNum (fl 7.45))
   \<and> nested_field (snd (check (\<lambda>code detail. []) 1000 env_18s))
        ''system'' ''disk_free_gb'' = Some (JNum (fl 114.98))
   \<and> nested_field (snd (check (\<lambda>code detail. []) 1000 env_18s))
        ''system'' ''cpu_percent'' = Some (JNum 92)"
proof -
  have ok: "\<not> ((92::real) > 95 \<or> mem_percent mem_later > 95 \<or> disk_percent disk_later > 95)"
    by (simp add: mem_later_def disk_later_def)
  have a: "fst (check (\<lambda>code detail. []) 1000 env_18s) = 200"
    by (simp add: check_serving [OF sampling_env_18s ok])
  from report_rounding [OF a] obtain cpu memory disk where
    s: "sampling env_18s = Inr (cpu, memory, disk)"
    and f: "json_field (snd (check (\<lambda>code detail. []) 1000 env_18s)) ''uptime_seconds'' =
        Some (JNum (py_round (float_sub (now env_18s) 1000) 2))"
      "json_field (snd (check (\<lambda>code detail. []) 1000 env_18s)) ''uptime_hours'' =
        Some (JNum (py_round (float_div (float_sub (now env_18s) 1000) 3600) 2))"
      "nested_field (snd (check (\<lambda>code detail. []) 1000 env_18s))
        ''system'' ''memory_available_gb'' =
        Some (JNum (py_round (int_truediv (mem_available memory) (1024 ^ 3)) 2))"
      "nested_field (snd (check (\<lambda>code detail. []) 1000 env_18s))
        ''system'' ''disk_free_gb'' =
        Some (JNum (py_round (int_truediv (disk_free disk) (1024 ^ 3)) 2))"
      "nested_field (snd (check (\<lambda>code detail. []) 1000 env_18s))
        ''system'' ''cpu_percent'' = Some (JNum cpu)"
    by blast
  from s have v: "cpu = 92" "memory = mem_later" "disk = disk_later"
    by (simp_all add: sampling_env_18s)
  have raw: "float_sub (now env_18s) 1000 = 18"
    by (simp add: env_18s_def float_sub_def fl_values)
  have quot: "float_div 18 3600 = 5764607523034235 / 1152921504606846976"
    unfolding float_div_def
    by (subst fl_eq [where k = "- 8"]) (simp_all add: round_half_even_def)
  have cent: "fl 0.01 = 5764607523034235 / 576460752303423488"
    by (subst fl_eq [where k = "- 7"]) (simp_all add: round_half_even_def)
  have r1: "round_half_even (5764607523034235 / 1152921504606846976 * 10 ^ 2) = 1"
    by (simp add: round_half_even_def)
  have "py_round (5764607523034235 / 1152921504606846976) 2 = fl (of_int 1 / 10 ^ 2)"
    by (rule py_round_eq [OF r1])
  also have "\<dots> = fl 0.01" by simp
  finally have hours:
    "py_round (5764607523034235 / 1152921504606846976) 2 =
       5764607523034235 / 576460752303423488"
    by (simp only: cent)
  have gib: "int_truediv (mem_available mem_later) (1024 ^ 3) = 8000000000 / 1073741824"
    unfolding int_truediv_def mem_later_def
    by (subst fl_eq [where k = 2]) (simp_all add: round_half_even_def)
  have r2: "round_half_even (8000000000 / 1073741824 * 10 ^ 2) = 745"
    by (simp add: round_half_even_def)
  have "py_round (8000000000 / 1073741824) 2 = fl (of_int 745 / 10 ^ 2)"
    by (rule py_round_eq [OF r2])
  also have "\<dots> = fl 7.45" by simp
  finally have available: "py_round (8000000000 / 1073741824) 2 = fl 7.45" .
  have gib': "int_truediv (disk_free disk_later) (1024 ^ 3) = 123456789012 / 1073741824"
    unfolding int_truediv_def disk_later_def
    by (subst fl_eq [where k = 6]) (simp_all add: round_half_even_def)
  have r3: "round_half_even (123456789012 / 1073741824 * 10 ^ 2) = 11498"
    by (simp add: round_half_even_def)
  have "py_round (123456789012 / 1073741824) 2 = fl (of_int 11498 / 10 ^ 2)"
    by (rule py_round_eq [OF r3])
  also have "\<dots> = fl 114.98" by simp
  finally have free: "py_round (123456789012 / 1073741824) 2 = fl 114.98" .
  from a f cent quot show ?thesis
    unfolding v raw quot gib gib' hours available free py_round_values by blast
qed

end
